theory Spec2Isabelle
  imports Main "HOL-Library.Sublist"
begin

section \<open>Python strings\<close>

text \<open>
  A Python \<open>str\<close> is modelled as a \<open>string\<close>; a \<open>char\<close> stands for one code point
  below 256.  Only the string methods the add-on calls are modelled, each with the
  behaviour of the Python built-in.
\<close>

text \<open>The code points below 256 for which \<open>str.isspace\<close> holds; they are what
  \<open>strip()\<close> and \<open>split()\<close> treat as whitespace.\<close>

definition whitespace :: "char list" where
  "whitespace = [CHR 0x09, CHR 0x0A, CHR 0x0B, CHR 0x0C, CHR 0x0D, CHR 0x1C, CHR 0x1D,
                 CHR 0x1E, CHR 0x1F, CHR 0x20, CHR 0x85, CHR 0xA0]"

definition isspace :: "char \<Rightarrow> bool" where
  "isspace c = (c \<in> set whitespace)"

definition nonspace :: "char \<Rightarrow> bool" where
  "nonspace c = (\<not> isspace c)"

text \<open>\<open>s.strip()\<close>\<close>

definition str_strip :: "string \<Rightarrow> string" where
  "str_strip s = rev (dropWhile isspace (rev (dropWhile isspace s)))"

text \<open>\<open>s.split(sep)\<close> for a one-character separator: the result is never empty, and
  the empty string gives one empty field.\<close>

fun str_split_on :: "char \<Rightarrow> string \<Rightarrow> string list" where
  "str_split_on d [] = [[]]"
| "str_split_on d (c # cs) =
     (if c = d then [] # str_split_on d cs
      else (case str_split_on d cs of
              [] \<Rightarrow> [[c]]
            | w # ws \<Rightarrow> (c # w) # ws))"

definition str_split_nl :: "string \<Rightarrow> string list" where
  "str_split_nl s = str_split_on CHR ''\<newline>'' s"

text \<open>\<open>s.split()\<close>: the maximal runs of non-whitespace characters; the first argument
  is the word being read.\<close>

fun words_from :: "string \<Rightarrow> string \<Rightarrow> string list" where
  "words_from w [] = (if w = [] then [] else [w])"
| "words_from w (c # cs) =
     (if isspace c then (if w = [] then [] else [w]) @ words_from [] cs
      else words_from (w @ [c]) cs)"

definition str_split_ws :: "string \<Rightarrow> string list" where
  "str_split_ws s = words_from [] s"

text \<open>\<open>s.startswith(p)\<close> and \<open>sub in s\<close>\<close>

definition str_startswith :: "string \<Rightarrow> string \<Rightarrow> bool" where
  "str_startswith s p = (take (length p) s = p)"

fun str_contains :: "string \<Rightarrow> string \<Rightarrow> bool" where
  "str_contains sub [] = (sub = [])"
| "str_contains sub (c # cs) = (if str_startswith (c # cs) sub then True else str_contains sub cs)"

text \<open>\<open>s.replace(old, new)\<close>: the occurrences of \<open>old\<close> are replaced from left to right
  without overlap; for an empty \<open>old\<close> Python puts \<open>new\<close> before every character and at the
  end.\<close>

function str_replace :: "string \<Rightarrow> string \<Rightarrow> string \<Rightarrow> string" where
  "str_replace old new s =
     (if old = [] then concat (map (\<lambda>c. new @ [c]) s) @ new
      else if s = [] then []
      else if str_startswith s old then new @ str_replace old new (drop (length old) s)
      else hd s # str_replace old new (tl s))"
  by pat_completeness auto
termination
  by (relation "measure (\<lambda>(old, new, s). length s)") auto

declare str_replace.simps [simp del]

text \<open>\<open>s.lower()\<close> on code points below 256: the ASCII capitals and the Latin-1 capitals
  (all of \<open>0xC0..0xDE\<close> but the multiplication sign) move up by 32.\<close>

definition lower_char :: "char \<Rightarrow> char" where
  "lower_char c =
     (let n = (of_char c :: nat)
      in if (65 \<le> n \<and> n \<le> 90) \<or> (192 \<le> n \<and> n \<le> 222 \<and> n \<noteq> 215)
         then char_of (n + 32) else c)"

definition str_lower :: "string \<Rightarrow> string" where
  "str_lower s = map lower_char s"

text \<open>\<open>a or b\<close> on strings: the first operand unless it is empty.\<close>

definition str_or :: "string \<Rightarrow> string \<Rightarrow> string" where
  "str_or a b = (if a \<noteq> [] then a else b)"


section \<open>helpers.py: normalize_commit_hash\<close>

definition COMMIT_HASH_LENGTH :: nat where
  "COMMIT_HASH_LENGTH = 64"

definition hex_any_case :: "char \<Rightarrow> bool" where
  "hex_any_case c = (c \<in> set ''0123456789abcdefABCDEF'')"

definition hex_lower :: "char \<Rightarrow> bool" where
  "hex_lower c = (c \<in> set ''0123456789abcdef'')"

text \<open>The argument is \<open>Optional[str]\<close>; the warnings the function logs are not modelled.\<close>

definition normalize_commit_hash :: "string option \<Rightarrow> string option" where
  "normalize_commit_hash commit_hash =
     (case commit_hash of
        None \<Rightarrow> None
      | Some h \<Rightarrow>
          if h = [] then None
          else let hash_str = concat (str_split_ws (str_strip h)) in
            if hash_str = [] then None
            else if \<not> list_all hex_any_case hash_str then None
            else let normalized = str_lower hash_str in
              if length normalized \<noteq> COMMIT_HASH_LENGTH then None
              else Some normalized)"


section \<open>forester_cli.py: the parsers of the CLI's reports\<close>

subsection \<open>_parse_status_output\<close>

record status_data =
  st_branch :: string
  st_head :: "string option"
  modified :: "string list"
  deleted :: "string list"
  untracked :: "string list"
  clean :: bool

datatype status_section = SecModified | SecDeleted | SecUntracked

definition status_init :: status_data where
  "status_init = \<lparr>st_branch = ''main'', st_head = None, modified = [], deleted = [],
                  untracked = [], clean = False\<rparr>"

text \<open>\<open>status[current_section].append(file_path)\<close>\<close>

fun section_append :: "status_section \<Rightarrow> string \<Rightarrow> status_data \<Rightarrow> status_data" where
  "section_append SecModified f st = st\<lparr>modified := modified st @ [f]\<rparr>"
| "section_append SecDeleted f st = st\<lparr>deleted := deleted st @ [f]\<rparr>"
| "section_append SecUntracked f st = st\<lparr>untracked := untracked st @ [f]\<rparr>"

text \<open>One round of the loop over the lines: the state is the dictionary and
  \<open>current_section\<close>.  The line is stripped first, as in the source, and every later test
  reads the stripped line.\<close>

definition status_line :: "status_data \<times> status_section option \<Rightarrow> string \<Rightarrow> status_data \<times> status_section option" where
  "status_line acc raw =
     (let st = fst acc; current_section = snd acc; line = str_strip raw in
      if line = [] then acc
      else if str_startswith line ''On branch '' then
        (st\<lparr>st_branch := str_strip (str_replace ''On branch '' [] line)\<rparr>, current_section)
      else if str_startswith line ''HEAD: '' then
        (st\<lparr>st_head := Some (str_strip (str_replace ''HEAD: '' [] line))\<rparr>, current_section)
      else if line = ''Nothing to commit, working tree clean'' then
        (st\<lparr>clean := True\<rparr>, current_section)
      else if line = ''No commits yet'' then (st\<lparr>st_head := None\<rparr>, current_section)
      else if line = ''Modified files:'' then (st, Some SecModified)
      else if line = ''Deleted files:'' then (st, Some SecDeleted)
      else if line = ''Untracked files:'' then (st, Some SecUntracked)
      else if str_startswith line ''  '' \<and> current_section \<noteq> None then
        (let file_path = str_strip line in
         if file_path \<noteq> [] then (section_append (the current_section) file_path st, current_section)
         else acc)
      else acc)"

definition parse_status_output :: "string \<Rightarrow> status_data" where
  "parse_status_output output = fst (foldl status_line (status_init, None) (str_split_nl output))"

subsection \<open>_parse_branch_list_output\<close>

record branch_entry =
  br_name :: string
  is_current :: bool

definition branch_line :: "branch_entry list \<Rightarrow> string \<Rightarrow> branch_entry list" where
  "branch_line branches raw =
     (let line = str_strip raw in
      if line = [] then branches
      else let is_cur = str_startswith line ''* '';
               branch_name = str_strip (str_replace ''  '' [] (str_replace ''* '' [] line)) in
        if branch_name \<noteq> [] then branches @ [\<lparr>br_name = branch_name, is_current = is_cur\<rparr>]
        else branches)"

definition parse_branch_list_output :: "string \<Rightarrow> branch_entry list" where
  "parse_branch_list_output output = foldl branch_line [] (str_split_nl output)"

section \<open>The surroundings of the add-on\<close>

text \<open>
  The add-on reaches the outside through \<open>ForesterCLI._execute_command\<close>, which starts
  the forester executable, through Blender (\<open>bpy.data.filepath\<close>, \<open>self.report\<close>,
  \<open>bpy.ops.df.*\<close>, the preferences), and through the clock and the random generator.
  The model keeps a trace of what the add-on did, in order, and takes what the outside
  answers from an environment that may look at the trace so far; so the same command can
  fail at first and succeed later.

  \<open>_execute_command\<close> returns \<open>(exit_code, stdout, stderr)\<close> or raises \<open>ForesterCLIError\<close>
  (no executable configured, an invalid path, a timeout, any other failure to start the
  process); all of that is the answer of the environment.
\<close>

datatype exec_outcome = Exited int string string | CLIError string

datatype level = INFO | WARNING | ERROR

datatype op_result = FINISHED | CANCELLED | RUNNING_MODAL | PASS_THROUGH | INTERFACE

datatype ops_call =
    RefreshBranches
  | RefreshHistory
  | CheckoutCommit string bool
  | SwitchBranch string bool

datatype ops_outcome = OpsReturned op_result | OpsRuntimeError string

datatype event =
    Exec string "string list" nat
  | Report level string
  | Ops ops_call
  | SetGcLastRun

type_synonym trace = "event list"

text \<open>\<open>Exec cwd command timeout\<close> is one call of \<open>_execute_command\<close>, \<open>Report\<close> one
  \<open>self.report\<close>, \<open>Ops\<close> one call of another operator through \<open>bpy.ops.df\<close>, and
  \<open>SetGcLastRun\<close> the assignment \<open>prefs.gc_last_run = time.time()\<close>.\<close>

record env =
  filepath :: string
  repository_root :: "string option"
  forester :: "trace \<Rightarrow> string \<Rightarrow> string list \<Rightarrow> nat \<Rightarrow> exec_outcome"
  operators :: "trace \<Rightarrow> ops_call \<Rightarrow> ops_outcome"
  now_strftime :: "trace \<Rightarrow> string"
  random_source :: "trace \<Rightarrow> nat"
  py_int :: "string \<Rightarrow> int option"
  path_str :: "string \<Rightarrow> string"

text \<open>\<open>filepath\<close> is \<open>bpy.data.filepath\<close>, \<open>repository_root\<close> what
  \<open>find_repository_root\<close> finds from the directory of that file, \<open>now_strftime\<close> the
  formatted \<open>datetime.now()\<close>, \<open>py_int\<close> Python's \<open>int(str)\<close> with \<open>None\<close> for a
  \<open>ValueError\<close>, and \<open>path_str s\<close> is \<open>str(Path(s))\<close>, the form in which \<open>pathlib\<close> prints
  the path it makes of the string \<open>s\<close> on the platform (it drops a trailing separator, for
  one).\<close>

definition execute_command :: "env \<Rightarrow> trace \<Rightarrow> string \<Rightarrow> string list \<Rightarrow> nat \<Rightarrow> exec_outcome \<times> trace" where
  "execute_command e tr cwd command timeout =
     (forester e tr cwd command timeout, tr @ [Exec cwd command timeout])"

definition call_operator :: "env \<Rightarrow> trace \<Rightarrow> ops_call \<Rightarrow> ops_outcome \<times> trace" where
  "call_operator e tr c = (operators e tr c, tr @ [Ops c])"

definition report :: "trace \<Rightarrow> level \<Rightarrow> string \<Rightarrow> trace" where
  "report tr l msg = tr @ [Report l msg]"

text \<open>\<open>random.randint(lo, hi)\<close>\<close>

definition randint :: "env \<Rightarrow> trace \<Rightarrow> nat \<Rightarrow> nat \<Rightarrow> nat" where
  "randint e tr lo hi = lo + random_source e tr mod (hi - lo + 1)"

text \<open>\<open>get_repository_path\<close> returns \<open>(path, None)\<close> or \<open>(None, message)\<close>.\<close>

definition get_repository_path :: "env \<Rightarrow> string + string" where
  "get_repository_path e =
     (if filepath e = [] then Inl ''Please save the Blender file first''
      else case repository_root e of
             None \<Rightarrow> Inl ''Not a Forester repository''
           | Some repo_path \<Rightarrow> Inr repo_path)"

text \<open>\<open>str(n)\<close> for an integer, and the single quote inside a message\<close>

definition digit_char :: "nat \<Rightarrow> char" where
  "digit_char d = char_of (48 + d)"

fun str_nat :: "nat \<Rightarrow> string" where
  "str_nat n = (if n < 10 then [digit_char n] else str_nat (n div 10) @ [digit_char (n mod 10)])"

declare str_nat.simps [simp del]

definition str_int :: "int \<Rightarrow> string" where
  "str_int i = (if i < 0 then CHR ''-'' # str_nat (nat (- i)) else str_nat (nat i))"

definition sq :: string where
  "sq = [CHR 0x27]"


section \<open>forester_cli.py: the methods of ForesterCLI\<close>

text \<open>
  A method returns \<open>(True, result, None)\<close> or \<open>(False, None, error_message)\<close> (without the
  result for some); the model writes \<open>Inr result\<close> and \<open>Inl error_message\<close>, next to the
  trace after the call.  What follows a failed command is
  \<open>stderr.strip() or stdout.strip() or "Unknown error"\<close> in most methods and
  \<open>stderr.strip() or "Unknown error"\<close> in the others.
\<close>

definition error_of :: "string \<Rightarrow> string \<Rightarrow> string" where
  "error_of stderr stdout = str_or (str_strip stderr) (str_or (str_strip stdout) ''Unknown error'')"

definition error_of_stderr :: "string \<Rightarrow> string" where
  "error_of_stderr stderr = str_or (str_strip stderr) ''Unknown error''"

text \<open>Several methods start with \<open>if not repo_path\<close> and turn a path that is not a
  \<open>Path\<close> into one, with \<open>Path(repo_path)\<close>; \<open>_execute_command\<close> hands \<open>str(cwd)\<close> to the
  process.  The argument is a \<open>Path\<close> (always true), written by the string it prints as, a
  \<open>str\<close> (false when empty) or \<open>None\<close>.  \<open>as_path\<close> is the \<open>str(cwd)\<close> of the argument; the
  guard returns before it for \<open>None\<close>.\<close>

datatype repo_arg = PathObj string | StrArg string | NoneArg

fun truthy_repo :: "repo_arg \<Rightarrow> bool" where
  "truthy_repo (PathObj p) = True"
| "truthy_repo (StrArg s) = (s \<noteq> [])"
| "truthy_repo NoneArg = False"

fun as_path :: "env \<Rightarrow> repo_arg \<Rightarrow> string" where
  "as_path e (PathObj p) = p"
| "as_path e (StrArg s) = path_str e s"
| "as_path e NoneArg = []"

subsection \<open>status\<close>

definition cli_status :: "env \<Rightarrow> trace \<Rightarrow> string \<Rightarrow> (string + status_data) \<times> trace" where
  "cli_status e tr repo_path =
     (case execute_command e tr repo_path [''status''] 30 of
        (CLIError m, tr') \<Rightarrow> (Inl m, tr')
      | (Exited exit_code stdout stderr, tr') \<Rightarrow>
          if exit_code \<noteq> 0 then (Inl (error_of_stderr stderr), tr')
          else (Inr (parse_status_output stdout), tr'))"

subsection \<open>branch\<close>

text \<open>The result is the list of branches for \<open>list\<close> and \<open>None\<close> for \<open>create\<close> and
  \<open>delete\<close>.\<close>

definition cli_branch :: "env \<Rightarrow> trace \<Rightarrow> repo_arg \<Rightarrow> string \<Rightarrow> string option \<Rightarrow> (string + branch_entry list option) \<times> trace" where
  "cli_branch e tr repo_path action branch_name =
     (if \<not> truthy_repo repo_path then (Inl ''Repository path is required'', tr)
      else if action \<notin> set [''list'', ''create'', ''delete''] then
        (Inl (''Invalid action: '' @ action @ ''. Must be '' @ sq @ ''list'' @ sq @ '', ''
              @ sq @ ''create'' @ sq @ '', or '' @ sq @ ''delete'' @ sq), tr)
      else if action = ''list'' then
        (case execute_command e tr (as_path e repo_path) [''branch''] 30 of
           (CLIError m, tr') \<Rightarrow> (Inl m, tr')
         | (Exited exit_code stdout stderr, tr') \<Rightarrow>
             if exit_code \<noteq> 0 then (Inl (error_of_stderr stderr), tr')
             else (Inr (Some (parse_branch_list_output stdout)), tr'))
      else if action = ''create'' then
        (case branch_name of
           None \<Rightarrow> (Inl ''Branch name required'', tr)
         | Some bn \<Rightarrow>
             if bn = [] \<or> str_strip bn = [] then (Inl ''Branch name required'', tr)
             else (case execute_command e tr (as_path e repo_path) [''branch'', str_strip bn] 30 of
                     (CLIError m, tr') \<Rightarrow> (Inl m, tr')
                   | (Exited exit_code stdout stderr, tr') \<Rightarrow>
                       if exit_code = 0 then (Inr None, tr')
                       else (Inl (error_of stderr stdout), tr')))
      else
        (case branch_name of
           None \<Rightarrow> (Inl ''Branch name required'', tr)
         | Some bn \<Rightarrow>
             if bn = [] \<or> str_strip bn = [] then (Inl ''Branch name required'', tr)
             else (case execute_command e tr (as_path e repo_path) [''branch'', ''-d'', str_strip bn] 30 of
                     (CLIError m, tr') \<Rightarrow> (Inl m, tr')
                   | (Exited exit_code stdout stderr, tr') \<Rightarrow>
                       if exit_code = 0 then (Inr None, tr')
                       else (Inl (error_of stderr stdout), tr'))))"

subsection \<open>checkout\<close>

definition cli_checkout :: "env \<Rightarrow> trace \<Rightarrow> repo_arg \<Rightarrow> string \<Rightarrow> (string + unit) \<times> trace" where
  "cli_checkout e tr repo_path branch_or_commit =
     (if \<not> truthy_repo repo_path then (Inl ''Repository path is required'', tr)
      else if branch_or_commit = [] \<or> str_strip branch_or_commit = [] then
        (Inl ''Branch or commit name is required'', tr)
      else (case execute_command e tr (as_path e repo_path) [''checkout'', str_strip branch_or_commit] 30 of
              (CLIError m, tr') \<Rightarrow> (Inl m, tr')
            | (Exited exit_code stdout stderr, tr') \<Rightarrow>
                if exit_code = 0 then (Inr (), tr')
                else (Inl (error_of stderr stdout), tr')))"

subsection \<open>commit\<close>

text \<open>\<open>s.find(c)\<close> for one character (\<open>-1\<close> when it is absent) and the slice \<open>s[a:b]\<close> for
  indices that are not negative.\<close>

fun str_find :: "char \<Rightarrow> string \<Rightarrow> int" where
  "str_find c [] = - 1"
| "str_find c (x # xs) =
     (if x = c then 0 else (let r = str_find c xs in if r < 0 then - 1 else r + 1))"

definition str_slice :: "nat \<Rightarrow> nat \<Rightarrow> string \<Rightarrow> string" where
  "str_slice a b s = take (b - a) (drop a s)"

text \<open>\<open>len(part) >= 8 and all(c in '0123456789abcdef' for c in part.lower())\<close>\<close>

definition hash_like :: "string \<Rightarrow> bool" where
  "hash_like part = (length part \<ge> 8 \<and> list_all hex_lower (str_lower part))"

text \<open>The body of the loop that looks for the hash in the output of a commit: first the
  form \<open>[branch hash] message\<close>, then any word of the line that looks like a hash; the loop
  stops at the first hash.\<close>

definition commit_hash_of_line :: "string \<Rightarrow> string option" where
  "commit_hash_of_line line =
     (let bracketed =
            (if str_startswith line ''['' \<and> str_contains '']'' line then
               (let bracket_end = str_find CHR '']'' line in
                if bracket_end > 0 then
                  (let parts = str_split_ws (str_slice 1 (nat bracket_end) line) in
                   if length parts \<ge> 2 \<and> hash_like (parts ! 1) then Some (parts ! 1) else None)
                else None)
             else None)
      in case bracketed of
           Some h \<Rightarrow> Some h
         | None \<Rightarrow> find hash_like (str_split_ws line))"

fun first_commit_hash :: "string list \<Rightarrow> string option" where
  "first_commit_hash [] = None"
| "first_commit_hash (raw # rest) =
     (let line = str_strip raw in
      if line = [] then first_commit_hash rest
      else (case commit_hash_of_line line of
              Some h \<Rightarrow> Some h
            | None \<Rightarrow> first_commit_hash rest))"

text \<open>\<open>if value: command.extend([flag, value])\<close> for an optional string\<close>

definition flag_with :: "string \<Rightarrow> string option \<Rightarrow> string list" where
  "flag_with flag v = (case v of None \<Rightarrow> [] | Some a \<Rightarrow> if a \<noteq> [] then [flag, a] else [])"

definition cli_commit :: "env \<Rightarrow> trace \<Rightarrow> repo_arg \<Rightarrow> string \<Rightarrow> string option \<Rightarrow> string option \<Rightarrow> bool \<Rightarrow> (string + string option) \<times> trace" where
  "cli_commit e tr repo_path message author tag no_verify =
     (if \<not> truthy_repo repo_path then (Inl ''Repository path is required'', tr)
      else if message = [] \<or> str_strip message = [] then
        (Inl ''Commit message cannot be empty'', tr)
      else let command = [''commit'', ''-m'', str_strip message] @ flag_with ''--author'' author
                         @ flag_with ''--tag'' tag @ (if no_verify then [''--no-verify''] else [])
        in (case execute_command e tr (as_path e repo_path) command 60 of
              (CLIError m, tr') \<Rightarrow> (Inl m, tr')
            | (Exited exit_code stdout stderr, tr') \<Rightarrow>
                if exit_code = 0 then (Inr (first_commit_hash (str_split_nl stdout)), tr')
                else (Inl (error_of stderr stdout), tr')))"

subsection \<open>show\<close>







subsection \<open>gc\<close>

record gc_stats =
  commits_deleted :: int
  trees_deleted :: int
  blobs_deleted :: int
  meshes_deleted :: int

text \<open>\<open>int(line.split(":")[-1].strip())\<close>, with \<open>None\<close> where the source catches the
  \<open>ValueError\<close> and keeps the old count.\<close>

definition count_of :: "env \<Rightarrow> string \<Rightarrow> int option" where
  "count_of e line = py_int e (str_strip (last (str_split_on CHR '':'' line)))"

definition gc_line :: "env \<Rightarrow> gc_stats \<Rightarrow> string \<Rightarrow> gc_stats" where
  "gc_line e stats raw =
     (let line = str_strip raw in
      if str_contains ''Commits deleted:'' line then
        (case count_of e line of Some n \<Rightarrow> stats\<lparr>commits_deleted := n\<rparr> | None \<Rightarrow> stats)
      else if str_contains ''Trees deleted:'' line then
        (case count_of e line of Some n \<Rightarrow> stats\<lparr>trees_deleted := n\<rparr> | None \<Rightarrow> stats)
      else if str_contains ''Blobs deleted:'' line then
        (case count_of e line of Some n \<Rightarrow> stats\<lparr>blobs_deleted := n\<rparr> | None \<Rightarrow> stats)
      else if str_contains ''Meshes deleted:'' line then
        (case count_of e line of Some n \<Rightarrow> stats\<lparr>meshes_deleted := n\<rparr> | None \<Rightarrow> stats)
      else stats)"

definition parse_gc_output :: "env \<Rightarrow> string \<Rightarrow> gc_stats" where
  "parse_gc_output e output =
     foldl (gc_line e)
       \<lparr>commits_deleted = 0, trees_deleted = 0, blobs_deleted = 0, meshes_deleted = 0\<rparr>
       (str_split_nl output)"

definition cli_gc :: "env \<Rightarrow> trace \<Rightarrow> string \<Rightarrow> bool \<Rightarrow> int \<Rightarrow> (string + gc_stats) \<times> trace" where
  "cli_gc e tr repo_path dry_run reflog_expire_days =
     (let command = [''gc''] @ (if dry_run then [''--dry-run''] else [])
                    @ (if reflog_expire_days \<noteq> 90
                       then [''--reflog-expire'', str_int reflog_expire_days] else [])
      in case execute_command e tr repo_path command 300 of
           (CLIError m, tr') \<Rightarrow> (Inl m, tr')
         | (Exited exit_code stdout stderr, tr') \<Rightarrow>
             if exit_code \<noteq> 0 then (Inl (error_of_stderr stderr), tr')
             else (Inr (parse_gc_output e stdout), tr'))"

subsection \<open>delete_commit and delete_tag\<close>



subsection \<open>stash\<close>

text \<open>The result is the hash of the new stash (or \<open>None\<close>) for \<open>save\<close>, the stashes for
  \<open>list\<close>, and \<open>None\<close> for the other actions.\<close>

datatype stash_result = StashHash "string option" | StashList "(string \<times> string) list" | StashNone

fun saved_stash_hash :: "string list \<Rightarrow> string option" where
  "saved_stash_hash [] = None"
| "saved_stash_hash (line # rest) =
     (if str_contains ''Saved stash'' line then
        (let parts = str_split_ws line in
         if length parts \<ge> 3 then Some (parts ! 2) else saved_stash_hash rest)
      else saved_stash_hash rest)"

definition stash_list_line :: "(string \<times> string) list \<Rightarrow> string \<Rightarrow> (string \<times> string) list" where
  "stash_list_line stashes raw =
     (let line = str_strip raw in
      if str_startswith line ''stash{'' then
        (let hash_end = str_find CHR ''}'' line in
         if hash_end > 0 then
           (let stash_hash = str_slice 6 (nat hash_end) line;
                stash_message = (if int (length line) > hash_end + 2
                                 then str_strip (drop (nat (hash_end + 2)) line) else [])
            in stashes @ [(stash_hash, stash_message)])
         else stashes)
      else stashes)"

definition cli_stash :: "env \<Rightarrow> trace \<Rightarrow> string \<Rightarrow> string \<Rightarrow> string option \<Rightarrow> (string + stash_result) \<times> trace" where
  "cli_stash e tr repo_path action message =
     (if action \<notin> set [''save'', ''list'', ''pop'', ''apply'', ''drop''] then
        (Inl (''Unknown stash action: '' @ action), tr)
      else let extra = (case message of None \<Rightarrow> [] | Some m \<Rightarrow> if m \<noteq> [] then [m] else []);
               cmd = (if action = ''save'' then [''stash'', ''save''] @ extra
                      else if action = ''list'' then [''stash'', ''list'']
                      else [''stash'', action] @ extra)
        in (case execute_command e tr repo_path cmd 30 of
              (CLIError m, tr') \<Rightarrow> (Inl m, tr')
            | (Exited exit_code stdout stderr, tr') \<Rightarrow>
                if exit_code = 0 then
                  (if action = ''save'' then (Inr (StashHash (saved_stash_hash (str_split_nl stdout))), tr')
                   else if action = ''list'' then
                     (Inr (StashList (foldl stash_list_line [] (str_split_nl stdout))), tr')
                   else (Inr StashNone, tr'))
                else (Inl (error_of stderr stdout), tr')))"

section \<open>The operators\<close>

text \<open>
  \<open>execute\<close> returns \<open>{'FINISHED'}\<close> or \<open>{'CANCELLED'}\<close>, written \<open>Inr\<close>; \<open>Inl\<close> is an
  exception that leaves \<open>execute\<close>, such as the \<open>RuntimeError\<close> of a \<open>bpy.ops\<close> call that
  nothing catches.  The properties of the operator are arguments of the model.
\<close>

subsection \<open>branch_operators.py: DF_OT_switch_branch.execute\<close>

definition has_changes :: "status_data \<Rightarrow> bool" where
  "has_changes status =
     (\<not> clean status \<or> length (modified status) > 0 \<or> length (deleted status) > 0
      \<or> length (untracked status) > 0)"

text \<open>The end of \<open>execute\<close>, from \<open>cli.checkout\<close> on.\<close>

definition switch_branch_checkout :: "env \<Rightarrow> trace \<Rightarrow> string \<Rightarrow> string \<Rightarrow> (string + op_result) \<times> trace" where
  "switch_branch_checkout e tr repo_path branch_name =
     (case cli_checkout e tr (PathObj repo_path) branch_name of
        (Inr u, tr1) \<Rightarrow>
          (case call_operator e (report tr1 INFO (''Switched to branch '' @ sq @ branch_name @ sq))
                  RefreshBranches of
             (OpsRuntimeError m, tr2) \<Rightarrow> (Inl m, tr2)
           | (OpsReturned r, tr2) \<Rightarrow> (Inr FINISHED, tr2))
      | (Inl error_msg, tr1) \<Rightarrow>
          (Inr CANCELLED, report tr1 ERROR (''Failed to switch branch: '' @ error_msg)))"

text \<open>The dictionary that \<open>status\<close> returns on success is never empty, so
  \<open>success and status_data\<close> is \<open>success\<close>.\<close>

definition switch_branch_execute :: "env \<Rightarrow> trace \<Rightarrow> string \<Rightarrow> bool \<Rightarrow> (string + op_result) \<times> trace" where
  "switch_branch_execute e tr branch_name skip_change_check =
     (if branch_name = [] then (Inr CANCELLED, report tr ERROR ''Branch name required'')
      else case get_repository_path e of
             Inl error_msg \<Rightarrow> (Inr CANCELLED, report tr ERROR error_msg)
           | Inr repo_path \<Rightarrow>
               if \<not> skip_change_check then
                 (case cli_status e tr repo_path of
                    (Inr status, tr1) \<Rightarrow>
                      if has_changes status then
                        (Inr CANCELLED,
                         report tr1 INFO ''Please use Stash button to save changes before switching branch'')
                      else switch_branch_checkout e tr1 repo_path branch_name
                  | (Inl err, tr1) \<Rightarrow> switch_branch_checkout e tr1 repo_path branch_name)
               else switch_branch_checkout e tr repo_path branch_name)"

subsection \<open>branch_operators.py: DF_OT_delete_branch.execute\<close>

text \<open>The end of \<open>execute\<close>, from the call of \<open>cli.branch\<close> with \<open>delete\<close> on.\<close>

definition delete_branch_delete :: "env \<Rightarrow> trace \<Rightarrow> string \<Rightarrow> string \<Rightarrow> (string + op_result) \<times> trace" where
  "delete_branch_delete e tr repo_path branch_name =
     (case cli_branch e tr (PathObj repo_path) ''delete'' (Some branch_name) of
        (Inr u, tr1) \<Rightarrow>
          (case call_operator e (report tr1 INFO (''Deleted branch '' @ sq @ branch_name @ sq))
                  RefreshBranches of
             (OpsRuntimeError m, tr2) \<Rightarrow> (Inl m, tr2)
           | (OpsReturned r, tr2) \<Rightarrow> (Inr FINISHED, tr2))
      | (Inl error_msg, tr1) \<Rightarrow>
          (Inr CANCELLED, report tr1 ERROR (''Failed to delete branch: '' @ error_msg)))"

text \<open>The loop over the branches returns at the first entry with the requested name that
  is current; what it does there does not depend on the entry.  A successful listing
  without a list would raise in the loop; \<open>cli_branch\<close> never gives one.\<close>

definition delete_branch_execute :: "env \<Rightarrow> trace \<Rightarrow> string \<Rightarrow> (string + op_result) \<times> trace" where
  "delete_branch_execute e tr branch_name =
     (if branch_name = [] then (Inr CANCELLED, report tr ERROR ''Branch name required'')
      else case get_repository_path e of
             Inl error_msg \<Rightarrow> (Inr CANCELLED, report tr ERROR error_msg)
           | Inr repo_path \<Rightarrow>
               (case cli_branch e tr (PathObj repo_path) ''list'' None of
                  (Inr (Some branches), tr1) \<Rightarrow>
                    if list_ex (\<lambda>branch_data. br_name branch_data = branch_name \<and> is_current branch_data)
                         branches then
                      (Inr CANCELLED,
                       report tr1 ERROR (''Cannot delete current branch '' @ sq @ branch_name @ sq
                                         @ ''. Switch to another branch first.''))
                    else delete_branch_delete e tr1 repo_path branch_name
                | (Inr None, tr1) \<Rightarrow> (Inl ''TypeError'', tr1)
                | (Inl err, tr1) \<Rightarrow> delete_branch_delete e tr1 repo_path branch_name))"

subsection \<open>gc_operators.py: DF_OT_garbage_collect.execute\<close>

text \<open>The call is \<open>cli.gc(repo_path, dry_run=False)\<close>, so \<open>reflog_expire_days\<close> is its
  default, 90.  The statistics are a dictionary of four keys, so \<open>if stats\<close> is true.\<close>

definition garbage_collect_execute :: "env \<Rightarrow> trace \<Rightarrow> bool \<Rightarrow> (string + op_result) \<times> trace" where
  "garbage_collect_execute e tr dry_run =
     (case get_repository_path e of
        Inl error_msg \<Rightarrow> (Inr CANCELLED, report tr ERROR error_msg)
      | Inr repo_path \<Rightarrow>
          (case cli_gc e tr repo_path False 90 of
             (Inl error_msg, tr1) \<Rightarrow>
               (Inr CANCELLED, report tr1 ERROR (''Garbage collection failed: '' @ error_msg))
           | (Inr stats, tr1) \<Rightarrow>
               (Inr FINISHED,
                report (tr1 @ [SetGcLastRun]) INFO
                  (''Deleted: '' @ str_int (commits_deleted stats) @ '' commits, ''
                   @ str_int (trees_deleted stats) @ '' trees, ''
                   @ str_int (blobs_deleted stats) @ '' blobs''))))"

subsection \<open>history_operators.py: DF_OT_delete_commit.execute\<close>







subsection \<open>stash_operators.py: DF_OT_stash_and_checkout.execute\<close>

definition stash_message :: "string \<Rightarrow> string" where
  "stash_message stamp = ''Auto-stash before checkout ('' @ stamp @ '')''"

text \<open>\<open>stash_hash[:16] + '...' if stash_hash else 'unknown'\<close>; a list that is not empty
  cannot be joined to a string, and \<open>save\<close> never gives one.\<close>

fun stash_label :: "stash_result \<Rightarrow> string + string" where
  "stash_label (StashHash None) = Inr ''unknown''"
| "stash_label (StashHash (Some h)) = Inr (if h \<noteq> [] then take 16 h @ ''...'' else ''unknown'')"
| "stash_label StashNone = Inr ''unknown''"
| "stash_label (StashList l) = (if l = [] then Inr ''unknown'' else Inl ''TypeError'')"

text \<open>What follows a stash that was saved: the report and the checkout of the target.\<close>

definition stash_and_checkout_proceed :: "env \<Rightarrow> trace \<Rightarrow> string \<Rightarrow> string \<Rightarrow> stash_result \<Rightarrow> (string + op_result) \<times> trace" where
  "stash_and_checkout_proceed e tr target_type target_value stash_hash =
     (case stash_label stash_hash of
        Inl exn \<Rightarrow> (Inl exn, tr)
      | Inr label \<Rightarrow>
          (let tr1 = report tr INFO (''Stashed changes: '' @ label) in
           if target_type = ''commit'' then
             (case normalize_commit_hash (Some target_value) of
                None \<Rightarrow>
                  (Inr CANCELLED,
                   report tr1 ERROR (''Invalid commit hash: ''
                     @ (if target_value \<noteq> [] then take 16 target_value else ''empty'') @ ''...''))
              | Some commit_hash \<Rightarrow>
                  (case call_operator e tr1 (CheckoutCommit commit_hash True) of
                     (OpsRuntimeError error_msg, tr2) \<Rightarrow>
                       (Inr CANCELLED,
                        report tr2 ERROR
                          (if str_contains ''Commit not found'' error_msg
                              \<or> str_contains ''commit not found'' (str_lower error_msg)
                           then ''Commit not found: '' @ commit_hash
                                @ ''\<newline>Please check the commit hash in the history panel.''
                           else ''Failed to checkout commit: '' @ error_msg))
                   | (OpsReturned result, tr2) \<Rightarrow>
                       if result \<noteq> FINISHED then
                         (Inr CANCELLED,
                          report tr2 ERROR (''Failed to checkout commit after stashing.''
                            @ ''\<newline>Please check the commit hash in the history panel.''))
                       else (Inr FINISHED, tr2)))
           else if target_type = ''branch'' then
             (case call_operator e tr1 (SwitchBranch target_value True) of
                (OpsRuntimeError m, tr2) \<Rightarrow> (Inl m, tr2)
              | (OpsReturned result, tr2) \<Rightarrow> (Inr FINISHED, tr2))
           else (Inr FINISHED, tr1)))"

definition stash_and_checkout_execute :: "env \<Rightarrow> trace \<Rightarrow> string \<Rightarrow> string \<Rightarrow> (string + op_result) \<times> trace" where
  "stash_and_checkout_execute e tr target_type target_value =
     (case get_repository_path e of
        Inl error_msg \<Rightarrow> (Inr CANCELLED, report tr ERROR error_msg)
      | Inr repo_path \<Rightarrow>
          (let timestamp = now_strftime e tr in
           case cli_stash e tr repo_path ''save'' (Some (stash_message timestamp)) of
             (Inr stash_hash, tr1) \<Rightarrow>
               stash_and_checkout_proceed e tr1 target_type target_value stash_hash
           | (Inl error_msg, tr1) \<Rightarrow>
               if str_contains ''UNIQUE constraint'' error_msg
                  \<or> str_contains ''stashes.hash'' error_msg then
                 (let timestamp' = now_strftime e tr1;
                      random_suffix = randint e tr1 1000 9999 in
                  case cli_stash e tr1 repo_path ''save''
                         (Some (stash_message (timestamp' @ ''-'' @ str_int (int random_suffix)))) of
                    (Inr stash_hash, tr2) \<Rightarrow>
                      stash_and_checkout_proceed e tr2 target_type target_value stash_hash
                  | (Inl error_msg', tr2) \<Rightarrow>
                      (Inr CANCELLED, report tr2 ERROR (''Failed to stash changes: '' @ error_msg')))
               else (Inr CANCELLED, report tr1 ERROR (''Failed to stash changes: '' @ error_msg))))"

section \<open>Reading a trace\<close>

text \<open>The commands that were handed to \<open>_execute_command\<close>, in order.\<close>

fun command_of :: "event \<Rightarrow> string list list" where
  "command_of (Exec cwd command timeout) = [command]"
| "command_of (Report l msg) = []"
| "command_of (Ops c) = []"
| "command_of SetGcLastRun = []"

definition commands :: "trace \<Rightarrow> string list list" where
  "commands tr = concat (map command_of tr)"

text \<open>A line of the branch listing that, once trimmed, starts with the marker of the
  current branch, and a line that is not blank.\<close>

definition starred :: "string \<Rightarrow> bool" where
  "starred l = str_startswith (str_strip l) ''* ''"

definition nonblank :: "string \<Rightarrow> bool" where
  "nonblank l = (str_strip l \<noteq> [])"

text \<open>A decimal digit.\<close>

definition isdigit :: "char \<Rightarrow> bool" where
  "isdigit c = (c \<in> set ''0123456789'')"


section \<open>Scenarios\<close>

text \<open>Concrete surroundings on which the theorems below are run.  In all of them the
  Blender file is saved inside a repository; they differ in what the forester executable
  answers.  No path is given as a string in them, and no count is read.\<close>

definition env_with :: "(trace \<Rightarrow> string \<Rightarrow> string list \<Rightarrow> nat \<Rightarrow> exec_outcome) \<Rightarrow> env" where
  "env_with f =
     \<lparr>filepath = ''/proj/scene.blend'', repository_root = Some ''/proj'', forester = f,
      operators = (\<lambda>tr c. OpsReturned FINISHED),
      now_strftime = (\<lambda>tr. if tr = [] then ''2024-05-01 12:00:00.000417''
                           else ''2024-05-01 12:00:00.734512''),
      random_source = (\<lambda>tr. 7),
      py_int = (\<lambda>s. None),
      path_str = (\<lambda>s. s)\<rparr>"

text \<open>Every command succeeds and prints nothing.\<close>

definition env_quiet :: env where
  "env_quiet = env_with (\<lambda>tr cwd command timeout. Exited 0 [] [])"

text \<open>\<open>status\<close> lists a modified file.\<close>

definition env_dirty :: env where
  "env_dirty = env_with (\<lambda>tr cwd command timeout.
     if command = [''status'']
     then Exited 0 ''On branch main\<newline>HEAD: abc\<newline>Modified files:\<newline>  a.txt\<newline>'' []
     else Exited 0 [] [])"

text \<open>\<open>status\<close> fails, every other command succeeds.\<close>

definition env_status_fails :: env where
  "env_status_fails = env_with (\<lambda>tr cwd command timeout.
     if command = [''status''] then Exited 1 [] ''database is locked'' else Exited 0 [] [])"

text \<open>\<open>branch\<close> prints two branches, one of them current; and a listing with two starred
  lines.\<close>

definition env_branches :: env where
  "env_branches = env_with (\<lambda>tr cwd command timeout.
     if command = [''branch''] then Exited 0 ''  main\<newline>* dev\<newline>'' [] else Exited 0 [] [])"

definition env_two_current :: env where
  "env_two_current = env_with (\<lambda>tr cwd command timeout.
     if command = [''branch''] then Exited 0 ''* a\<newline>* b'' [] else Exited 0 [] [])"

text \<open>A commit that a tag refers to: its deletion fails until the tag has been deleted.
  In the second scenario the tag cannot be deleted either.\<close>

definition tagged_hash :: string where
  "tagged_hash = ''00112233445566778899aabbccddeeff00112233445566778899aabbccddeeff''"






text \<open>The first \<open>stash save\<close> collides with an older stash, the next one succeeds; and a
  repository in which \<open>stash save\<close> fails for another reason.\<close>

definition env_collision :: env where
  "env_collision = env_with (\<lambda>tr cwd command timeout.
     if take 2 command = [''stash'', ''save''] \<and> commands tr = []
     then Exited 1 [] ''UNIQUE constraint failed: stashes.hash''
     else Exited 0 ''Saved stash 0123456789abcdef0123'' [])"

definition env_disk_full :: env where
  "env_disk_full = env_with (\<lambda>tr cwd command timeout. Exited 1 [] ''disk full'')"

text \<open>A hash written in capitals and cut by whitespace, and its normal form.\<close>

definition spaced_hash :: string where
  "spaced_hash = '' 00112233445566778899AABBCCDDEEFF 00112233445566778899aabbccddeeff\<newline>''"

text \<open>The report of \<open>status\<close> with entries under two section headers.\<close>

definition status_report :: string where
  "status_report =
     ''On branch main\<newline>HEAD: abc\<newline>Modified files:\<newline>  a.txt\<newline>Untracked files:\<newline>  b.txt\<newline>''"

text \<open>What \<open>status\<close> parses from the report of \<open>env_dirty\<close>.\<close>

definition dirty_status :: status_data where
  "dirty_status = \<lparr>st_branch = ''main'', st_head = Some ''abc'', modified = [], deleted = [],
                   untracked = [], clean = False\<rparr>"


section \<open>Properties of the string functions and of the parsers\<close>

lemma strip_Nil_or_hd: "str_strip s = [] \<or> \<not> isspace (hd (str_strip s))"
proof (cases "dropWhile isspace s")
  case Nil
  show ?thesis unfolding str_strip_def Nil by simp
next
  case (Cons a t)
  then have a: "\<not> isspace a" by (metis hd_dropWhile list.sel(1) list.distinct(1))
  have "dropWhile isspace (rev (a # t)) = dropWhile isspace (rev t) @ [a] \<or> dropWhile isspace (rev (a # t)) = [a]"
    using a by (simp add: dropWhile_append)
  then show ?thesis using Cons a by (auto simp add: str_strip_def dropWhile_append split: if_splits)
qed

lemma strip_Nil_or_last: "str_strip s = [] \<or> \<not> isspace (last (str_strip s))"
  by (metis str_strip_def hd_dropWhile last_rev rev_is_Nil_conv)

lemma strip_not_startswith_space: "str_startswith (str_strip s) (CHR '' '' # p) = False"
proof -
  have sp: "isspace CHR '' ''" by (simp add: isspace_def whitespace_def)
  show ?thesis using strip_Nil_or_hd [of s] sp
    by (cases "str_strip s") (auto simp add: str_startswith_def)
qed

lemma filter_dropWhile_space: "filter nonspace (dropWhile isspace s) = filter nonspace s"
  by (induction s) (auto simp add: nonspace_def)

lemma filter_strip: "filter nonspace (str_strip s) = filter nonspace s"
proof -
  have "filter nonspace (str_strip s) = rev (filter nonspace (dropWhile isspace (rev (dropWhile isspace s))))"
    by (simp add: str_strip_def rev_filter)
  also have "\<dots> = rev (filter nonspace (rev (dropWhile isspace s)))"
    by (simp add: filter_dropWhile_space)
  also have "\<dots> = filter nonspace s"
    by (simp add: rev_filter[symmetric] filter_dropWhile_space)
  finally show ?thesis .
qed

lemma concat_words_from: "concat (words_from w s) = w @ filter nonspace s"
  by (induction s arbitrary: w) (auto simp add: nonspace_def)

lemma concat_split_ws: "concat (str_split_ws s) = filter nonspace s"
  by (simp add: str_split_ws_def concat_words_from)

lemma lower_hex: "hex_any_case c \<Longrightarrow> hex_lower (lower_char c)"
  unfolding hex_any_case_def by (auto; code_simp)

lemma lower_hex_id: "hex_lower c \<Longrightarrow> lower_char c = c"
  unfolding hex_lower_def by (auto; code_simp)

lemma hex_lower_any: "hex_lower c \<Longrightarrow> hex_any_case c"
  by (auto simp add: hex_lower_def hex_any_case_def)

lemma hex_nonspace: "hex_any_case c \<Longrightarrow> nonspace c"
  by (auto simp add: hex_any_case_def nonspace_def isspace_def whitespace_def)


lemma normalize_Some_shape:
  assumes "normalize_commit_hash x = Some r"
  shows "length r = 64 \<and> list_all hex_lower r"
proof -
  from assms obtain h where r: "r = str_lower (concat (str_split_ws (str_strip h)))"
    and hex: "list_all hex_any_case (concat (str_split_ws (str_strip h)))"
    and len: "length (str_lower (concat (str_split_ws (str_strip h)))) = 64"
    by (auto simp add: normalize_commit_hash_def Let_def COMMIT_HASH_LENGTH_def
             split: option.splits if_splits)
  from hex have "list_all hex_lower r"
    unfolding r str_lower_def by (simp add: list_all_iff lower_hex)
  with len r show ?thesis by simp
qed

lemma normalize_hex_digits:
  assumes "length (filter nonspace s) = 64" and "list_all hex_any_case (filter nonspace s)"
  shows "normalize_commit_hash (Some s) = Some (str_lower (filter nonspace s))"
proof -
  have hs: "concat (str_split_ws (str_strip s)) = filter nonspace s"
    by (simp add: concat_split_ws filter_strip)
  from assms(1) have ne: "s \<noteq> []" "filter nonspace s \<noteq> []" by auto
  show ?thesis
    using assms ne
    by (simp add: normalize_commit_hash_def hs Let_def COMMIT_HASH_LENGTH_def str_lower_def)
qed

lemma normalize_idem:
  assumes "normalize_commit_hash x = Some r"
  shows "normalize_commit_hash (Some r) = Some r"
proof -
  from normalize_Some_shape [OF assms] have len: "length r = 64" and hex: "list_all hex_lower r"
    by simp_all
  from hex have "filter nonspace r = r"
    by (simp add: list_all_iff hex_lower_any hex_nonspace)
  moreover from hex have "list_all hex_any_case r"
    by (simp add: list_all_iff hex_lower_any)
  moreover from hex have "str_lower r = r"
    unfolding str_lower_def by (simp add: list_all_iff lower_hex_id map_idI)
  ultimately show ?thesis
    using normalize_hex_digits [of r] len by simp
qed

lemma status_line_lists:
  "modified (fst (status_line acc raw)) = modified (fst acc) \<and>
   deleted (fst (status_line acc raw)) = deleted (fst acc) \<and>
   untracked (fst (status_line acc raw)) = untracked (fst acc)"
proof -
  have "str_startswith (str_strip raw) ''  '' = False"
    by (rule strip_not_startswith_space)
  then show ?thesis
    by (simp add: status_line_def Let_def)
qed

lemma foldl_status_line_lists:
  "modified (fst (foldl status_line acc ls)) = modified (fst acc) \<and>
   deleted (fst (foldl status_line acc ls)) = deleted (fst acc) \<and>
   untracked (fst (foldl status_line acc ls)) = untracked (fst acc)"
  by (induction ls arbitrary: acc) (simp_all add: status_line_lists)

lemma parse_status_lists_empty:
  "modified (parse_status_output out) = [] \<and> deleted (parse_status_output out) = [] \<and>
   untracked (parse_status_output out) = []"
  using foldl_status_line_lists [of "(status_init, None)" "str_split_nl out"]
  by (simp add: parse_status_output_def status_init_def)

lemma replace_Nil: "old \<noteq> [] \<Longrightarrow> str_replace old new [] = []"
  by (simp add: str_replace.simps)

lemma replace_keeps_last:
  "old \<noteq> [] \<Longrightarrow> s \<noteq> [] \<Longrightarrow> last s \<noteq> last old \<Longrightarrow>
   str_replace old new s \<noteq> [] \<and> last (str_replace old new s) = last s"
proof (induction old new s rule: str_replace.induct)
  case (1 old new s)
  show ?case
  proof (cases "str_startswith s old")
    case True
    then have s: "s = old @ drop (length old) s"
      by (metis str_startswith_def append_take_drop_id)
    have rest: "drop (length old) s \<noteq> []"
    proof
      assume "drop (length old) s = []"
      with s have "s = old" by simp
      with 1(5) show False by simp
    qed
    have l: "last (drop (length old) s) = last s"
      using s rest by (metis last_appendR)
    from 1(1) [OF 1(3) 1(4) True 1(3) rest] l 1(5)
    have "str_replace old new (drop (length old) s) \<noteq> [] \<and>
          last (str_replace old new (drop (length old) s)) = last s" by simp
    then show ?thesis
      using True 1(3) 1(4) by (simp add: str_replace.simps [of old new s])
  next
    case False
    show ?thesis
    proof (cases "tl s")
      case Nil
      with 1(4) obtain a where sa: "s = [a]" by (cases s) auto
      show ?thesis using False 1(3) unfolding sa
        by (simp add: str_replace.simps [of old new "[a]"] replace_Nil)
    next
      case (Cons a t)
      then have t: "tl s \<noteq> []" "last (tl s) = last s" using 1(4)
        by (cases s; simp)+
      from 1(2) [OF 1(3) 1(4) False 1(3) t(1)] t(2) 1(5)
      have "str_replace old new (tl s) \<noteq> [] \<and> last (str_replace old new (tl s)) = last s"
        by simp
      then show ?thesis using False 1(3) 1(4)
        by (simp add: str_replace.simps [of old new s])
    qed
  qed
qed

lemma strip_nonempty: "s \<noteq> [] \<Longrightarrow> \<not> isspace (last s) \<Longrightarrow> str_strip s \<noteq> []"
proof -
  assume a: "s \<noteq> []" "\<not> isspace (last s)"
  then have "\<exists>x\<in>set s. nonspace x"
    by (auto simp add: nonspace_def intro: bexI [of _ "last s"])
  then have "filter nonspace (str_strip s) \<noteq> []"
    by (simp add: filter_strip filter_empty_conv)
  then show ?thesis by auto
qed

lemma branch_name_nonempty:
  assumes "str_strip raw \<noteq> []"
  shows "str_strip (str_replace ''  '' [] (str_replace ''* '' [] (str_strip raw))) \<noteq> []"
proof -
  let ?l = "str_strip raw"
  have sp: "isspace CHR '' ''" by (simp add: isspace_def whitespace_def)
  from assms strip_Nil_or_last [of raw] have ns: "\<not> isspace (last ?l)" by simp
  with sp have ne: "last ?l \<noteq> CHR '' ''" by auto
  have r1: "str_replace ''* '' [] ?l \<noteq> [] \<and> last (str_replace ''* '' [] ?l) = last ?l"
    using replace_keeps_last [of "''* ''" ?l "[]"] assms ne by simp
  have r2: "str_replace ''  '' [] (str_replace ''* '' [] ?l) \<noteq> [] \<and>
            last (str_replace ''  '' [] (str_replace ''* '' [] ?l)) = last ?l"
    using replace_keeps_last [of "''  ''" "str_replace ''* '' [] ?l" "[]"] r1 ne by simp
  show ?thesis using strip_nonempty r2 ns by simp
qed

lemma branch_line_current:
  "map is_current (branch_line bs raw) =
   map is_current bs @ (if str_strip raw = [] then [] else [starred raw])"
  using branch_name_nonempty [of raw]
  by (simp add: branch_line_def Let_def starred_def)

lemma foldl_branch_line_current:
  "map is_current (foldl branch_line bs ls) =
   map is_current bs @ map starred (filter nonblank ls)"
  by (induction ls arbitrary: bs) (simp_all add: branch_line_current nonblank_def)

lemma parse_branch_current:
  "map is_current (parse_branch_list_output out) =
   map starred (filter nonblank (str_split_nl out))"
  by (simp add: parse_branch_list_output_def foldl_branch_line_current)


section \<open>The claims\<close>

subsection \<open>_parse_status_output\<close>

text \<open>
  Claim C1.  For a report of \<open>status\<close> that follows the documented contract (a header
  \<open>Modified files:\<close>, \<open>Deleted files:\<close> or \<open>Untracked files:\<close>, then entries indented by
  two spaces) the lists \<open>modified\<close>, \<open>deleted\<close> and \<open>untracked\<close> of the result should hold
  the entries under their header.  On the report \<open>status_report\<close>, with \<open>a.txt\<close> under
  \<open>Modified files:\<close> and \<open>b.txt\<close> under \<open>Untracked files:\<close>, the code returns three empty
  lists.  Every line is stripped before it is looked at, so no line starts with two spaces
  when the test for a file entry is reached; by \<open>parse_status_lists_empty\<close> the three
  lists are empty whatever the report.
\<close>

theorem parse_status_output_loses_entries:
  "parse_status_output status_report =
     \<lparr>st_branch = ''main'', st_head = Some ''abc'', modified = [], deleted = [],
      untracked = [], clean = False\<rparr>"
  by code_simp

subsection \<open>normalize_commit_hash\<close>

text \<open>
  Claim C9.  For every input, \<open>normalize_commit_hash\<close> returns \<open>None\<close> or a string of
  exactly 64 lowercase hexadecimal characters; on an input whose non-whitespace characters
  are 64 hexadecimal digits of any letter case it returns those digits in lower case; and
  it is idempotent: applied to a result that is not \<open>None\<close> it returns that result.
\<close>

theorem normalize_commit_hash_spec:
  "(normalize_commit_hash x = None \<or>
      (\<exists>r. normalize_commit_hash x = Some r \<and> length r = 64 \<and> list_all hex_lower r))
   \<and> (length (filter nonspace s) = 64 \<and> list_all hex_any_case (filter nonspace s)
        \<longrightarrow> normalize_commit_hash (Some s) = Some (str_lower (filter nonspace s)))
   \<and> (normalize_commit_hash x = Some r' \<longrightarrow> normalize_commit_hash (Some r') = Some r')"
proof (intro conjI impI)
  show "normalize_commit_hash x = None \<or>
        (\<exists>r. normalize_commit_hash x = Some r \<and> length r = 64 \<and> list_all hex_lower r)"
  proof (cases "normalize_commit_hash x")
    case None
    then show ?thesis by simp
  next
    case (Some r)
    with normalize_Some_shape [OF Some] show ?thesis by simp
  qed
next
  assume "length (filter nonspace s) = 64 \<and> list_all hex_any_case (filter nonspace s)"
  then show "normalize_commit_hash (Some s) = Some (str_lower (filter nonspace s))"
    by (simp add: normalize_hex_digits)
next
  assume "normalize_commit_hash x = Some r'"
  then show "normalize_commit_hash (Some r') = Some r'"
    by (rule normalize_idem)
qed

theorem normalize_commit_hash_spec_witness:
  "length (filter nonspace spaced_hash) = 64
   \<and> list_all hex_any_case (filter nonspace spaced_hash)
   \<and> normalize_commit_hash (Some spaced_hash) = Some tagged_hash
   \<and> normalize_commit_hash (Some tagged_hash) = Some tagged_hash"
proof -
  have h1: "length (filter nonspace spaced_hash) = 64" by code_simp
  have h2: "list_all hex_any_case (filter nonspace spaced_hash)" by code_simp
  have low: "str_lower (filter nonspace spaced_hash) = tagged_hash" by code_simp
  note spec = normalize_commit_hash_spec [of "Some spaced_hash" spaced_hash tagged_hash]
  have "normalize_commit_hash (Some spaced_hash) = Some (str_lower (filter nonspace spaced_hash))"
    by (rule mp [OF spec [THEN conjunct2, THEN conjunct1] conjI [OF h1 h2]])
  then have n: "normalize_commit_hash (Some spaced_hash) = Some tagged_hash"
    by (simp only: low)
  have i: "normalize_commit_hash (Some tagged_hash) = Some tagged_hash"
    by (rule mp [OF spec [THEN conjunct2, THEN conjunct2] n])
  from h1 h2 n i show ?thesis by (intro conjI)
qed

subsection \<open>branch, action list\<close>

lemma starred_nonblank: "starred l \<Longrightarrow> nonblank l"
  by (auto simp add: starred_def nonblank_def str_startswith_def)

lemma filter_starred_nonblank: "filter starred (filter nonblank ls) = filter starred ls"
  by (induction ls) (auto simp add: starred_nonblank)

lemma length_filter_map: "length (filter P xs) = length (filter (\<lambda>b. b) (map P xs))"
  by (induction xs) auto

lemma count_current:
  "length (filter is_current (parse_branch_list_output output)) =
   length (filter starred (str_split_nl output))"
proof -
  have "length (filter is_current (parse_branch_list_output output)) =
        length (filter (\<lambda>b. b) (map is_current (parse_branch_list_output output)))"
    by (rule length_filter_map)
  also have "\<dots> = length (filter (\<lambda>b. b) (map starred (filter nonblank (str_split_nl output))))"
    by (simp only: parse_branch_current)
  also have "\<dots> = length (filter starred (filter nonblank (str_split_nl output)))"
    by (rule length_filter_map [symmetric])
  finally show ?thesis by (simp only: filter_starred_nonblank)
qed

text \<open>
  Claim C6, as amended.  When the \<open>branch\<close> command succeeds, \<open>ForesterCLI.branch\<close> with
  action \<open>list\<close> returns one entry for every line of stdout that is not blank, in order,
  and an entry has \<open>is_current = true\<close> exactly when its line, once trimmed, starts with
  \<open>* \<close>.  So the list has exactly one current entry if and only if exactly one line of
  stdout is starred; the parser itself does not make it so.
\<close>

theorem branch_list_current_entries:
  assumes "truthy_repo repo_path"
    and "forester e tr (as_path e repo_path) [''branch''] 30 = Exited 0 stdout stderr"
  shows "\<exists>branches. fst (cli_branch e tr repo_path ''list'' branch_name) = Inr (Some branches)
           \<and> map is_current branches = map starred (filter nonblank (str_split_nl stdout))
           \<and> (length (filter is_current branches) = 1)
               = (length (filter starred (str_split_nl stdout)) = 1)"
proof -
  have "fst (cli_branch e tr repo_path ''list'' branch_name)
        = Inr (Some (parse_branch_list_output stdout))"
    using assms by (simp add: cli_branch_def execute_command_def)
  then show ?thesis
    using parse_branch_current [of stdout] count_current [of stdout] by simp
qed

theorem branch_list_current_entries_witness:
  "truthy_repo (PathObj ''/proj'')
   \<and> forester env_branches [] (as_path env_branches (PathObj ''/proj'')) [''branch''] 30
       = Exited 0 ''  main\<newline>* dev\<newline>'' []
   \<and> (\<exists>branches. fst (cli_branch env_branches [] (PathObj ''/proj'') ''list'' None)
                    = Inr (Some branches)
         \<and> map is_current branches = [False, True])"
proof -
  have h1: "truthy_repo (PathObj ''/proj'')" by simp
  have h2: "forester env_branches [] (as_path env_branches (PathObj ''/proj'')) [''branch''] 30
            = Exited 0 ''  main\<newline>* dev\<newline>'' []"
    by code_simp
  have m: "map starred (filter nonblank (str_split_nl ''  main\<newline>* dev\<newline>'')) = [False, True]"
    by code_simp
  from branch_list_current_entries [OF h1 h2, of None]
  obtain branches
    where b: "fst (cli_branch env_branches [] (PathObj ''/proj'') ''list'' None)
              = Inr (Some branches)"
      and c: "map is_current branches
              = map starred (filter nonblank (str_split_nl ''  main\<newline>* dev\<newline>''))"
    by (elim exE conjE)
  from c have c': "map is_current branches = [False, True]" by (simp only: m)
  from b c' have "\<exists>branches. fst (cli_branch env_branches [] (PathObj ''/proj'') ''list'' None)
                    = Inr (Some branches)
         \<and> map is_current branches = [False, True]"
    by (intro exI [of _ branches] conjI)
  with h1 h2 show ?thesis by (intro conjI)
qed

text \<open>The claim as it was stated fails on a listing with two starred lines: both entries
  are current.\<close>

theorem branch_list_two_current:
  "fst (cli_branch env_two_current [] (PathObj ''/proj'') ''list'' None)
   = Inr (Some [\<lparr>br_name = ''a'', is_current = True\<rparr>, \<lparr>br_name = ''b'', is_current = True\<rparr>])"
  by code_simp

subsection \<open>commit\<close>

lemma blank_iff: "(m = [] \<or> str_strip m = []) = list_all isspace m"
proof
  assume "m = [] \<or> str_strip m = []"
  moreover have "str_strip [] = []" by (simp add: str_strip_def)
  ultimately have "str_strip m = []" by auto
  then have "filter nonspace (str_strip m) = []" by simp
  then have "filter nonspace m = []" by (simp add: filter_strip)
  then show "list_all isspace m"
    by (simp add: filter_empty_conv list_all_iff nonspace_def)
next
  assume "list_all isspace m"
  then have d: "dropWhile isspace m = []" by (simp add: list_all_iff)
  have "str_strip m = []" unfolding str_strip_def d by simp
  then show "m = [] \<or> str_strip m = []" by simp
qed

text \<open>
  Claim C7, as amended.  For every message that is empty or consists only of whitespace,
  \<open>ForesterCLI.commit\<close> fails without executing any command: the trace is unchanged.  The
  error is \<open>Commit message cannot be empty\<close> when the repository path is true, and
  \<open>Repository path is required\<close> otherwise, since that test comes first.
\<close>

theorem commit_blank_message:
  assumes "list_all isspace message"
  shows "cli_commit e tr repo_path message author tag no_verify =
           (Inl (if truthy_repo repo_path then ''Commit message cannot be empty''
                 else ''Repository path is required''), tr)"
proof -
  from assms have "message = [] \<or> str_strip message = []" by (simp only: blank_iff)
  then show ?thesis by (cases "message = []") (simp_all add: cli_commit_def)
qed

theorem commit_blank_message_witness:
  "list_all isspace ''  \<newline>''
   \<and> cli_commit env_quiet [] (PathObj ''/proj'') ''  \<newline>'' (Some ''me'') None False
       = (Inl ''Commit message cannot be empty'', [])"
proof -
  have h: "list_all isspace ''  \<newline>''" by code_simp
  have t: "truthy_repo (PathObj ''/proj'')" by simp
  from commit_blank_message [OF h, of env_quiet "[]" "PathObj ''/proj''" "Some ''me''" None False]
  have "cli_commit env_quiet [] (PathObj ''/proj'') ''  \<newline>'' (Some ''me'') None False
        = (Inl ''Commit message cannot be empty'', [])"
    by (simp only: t if_True)
  with h show ?thesis by (intro conjI)
qed

text \<open>The claim as it was stated fails for a repository path that is an empty string: the
  message is blank, and the error is another one.\<close>

theorem commit_blank_message_other_error:
  "list_all isspace ''  '' \<and>
   cli_commit env_quiet [] (StrArg []) ''  '' None None False
     = (Inl ''Repository path is required'', [])"
  by code_simp

subsection \<open>The switch-branch and delete-branch operators\<close>

lemma commands_append: "commands (a @ b) = commands a @ commands b"
  by (simp add: commands_def)

lemma commands_report: "commands (report tr l msg) = commands tr"
  by (simp add: commands_def report_def)

lemma commands_ops: "commands (snd (call_operator e tr c)) = commands tr"
  by (simp add: commands_def call_operator_def)

lemma cli_status_trace:
  "cli_status e tr repo_path = (r, tr1) \<Longrightarrow> tr1 = tr @ [Exec repo_path [''status''] 30]"
  by (auto simp add: cli_status_def execute_command_def split: exec_outcome.splits if_splits)

lemma strip_Nil: "str_strip [] = []"
  by (simp add: str_strip_def)

lemma cli_checkout_commands:
  assumes "str_strip branch_name \<noteq> []"
  shows "commands (snd (cli_checkout e tr (PathObj repo_path) branch_name)) =
           commands tr @ [[''checkout'', str_strip branch_name]]"
proof -
  from assms strip_Nil have "branch_name \<noteq> []" by auto
  with assms show ?thesis
    by (simp add: cli_checkout_def execute_command_def commands_def split: exec_outcome.splits)
qed

lemma switch_branch_checkout_commands:
  "commands (snd (switch_branch_checkout e tr repo_path branch_name)) =
   commands (snd (cli_checkout e tr (PathObj repo_path) branch_name))"
  by (simp add: switch_branch_checkout_def report_def call_operator_def commands_def
           split: prod.splits sum.splits ops_outcome.splits)

lemma branch_line_names:
  "\<forall>b\<in>set bs. br_name b \<noteq> [] \<Longrightarrow> \<forall>b\<in>set (branch_line bs raw). br_name b \<noteq> []"
  by (simp add: branch_line_def Let_def)

lemma foldl_branch_line_names:
  "\<forall>b\<in>set bs. br_name b \<noteq> [] \<Longrightarrow> \<forall>b\<in>set (foldl branch_line bs ls). br_name b \<noteq> []"
proof (induction ls arbitrary: bs)
  case Nil
  then show ?case by simp
next
  case (Cons l ls)
  from Cons.prems have "\<forall>b\<in>set (branch_line bs l). br_name b \<noteq> []" by (rule branch_line_names)
  then have "\<forall>b\<in>set (foldl branch_line (branch_line bs l) ls). br_name b \<noteq> []"
    by (rule Cons.IH)
  then show ?case by simp
qed

lemma parse_branch_names: "\<forall>b\<in>set (parse_branch_list_output out). br_name b \<noteq> []"
  unfolding parse_branch_list_output_def by (rule foldl_branch_line_names) simp

lemma cli_branch_list:
  assumes "cli_branch e tr (PathObj repo_path) ''list'' None = (Inr (Some branches), tr1)"
  shows "tr1 = tr @ [Exec repo_path [''branch''] 30] \<and> (\<forall>b\<in>set branches. br_name b \<noteq> [])"
  using assms parse_branch_names
  by (auto simp add: cli_branch_def execute_command_def split: exec_outcome.splits if_splits)

text \<open>
  Claim C2.  When the file is saved inside a repository, \<open>status\<close> succeeds and what it
  parsed reports uncommitted changes (\<open>clean\<close> is false, or one of the three lists has an
  entry), the switch-branch operator with \<open>skip_change_check\<close> false returns \<open>CANCELLED\<close>
  and hands no command but \<open>status\<close> to the executable: \<open>checkout\<close> is not invoked.  For
  an empty branch name it cancels before it asks for the status.
\<close>

theorem switch_branch_refuses_uncommitted:
  assumes "get_repository_path e = Inr repo_path"
    and "cli_status e tr repo_path = (Inr status, tr1)"
    and "\<not> clean status \<or> modified status \<noteq> [] \<or> deleted status \<noteq> [] \<or> untracked status \<noteq> []"
  shows "fst (switch_branch_execute e tr branch_name False) = Inr CANCELLED
         \<and> commands (snd (switch_branch_execute e tr branch_name False)) =
             commands tr @ (if branch_name = [] then [] else [[''status'']])"
proof (cases "branch_name = []")
  case True
  then show ?thesis by (simp add: switch_branch_execute_def commands_report)
next
  case False
  from assms(3) have h: "has_changes status" by (auto simp add: has_changes_def)
  from assms(2) have t: "tr1 = tr @ [Exec repo_path [''status''] 30]" by (rule cli_status_trace)
  have c: "commands tr1 = commands tr @ [[''status'']]" unfolding t by (simp add: commands_def)
  from False assms(1,2) h c show ?thesis
    by (simp add: switch_branch_execute_def commands_report)
qed

theorem switch_branch_refuses_uncommitted_witness:
  "get_repository_path env_dirty = Inr ''/proj''
   \<and> cli_status env_dirty [] ''/proj'' = (Inr dirty_status, [Exec ''/proj'' [''status''] 30])
   \<and> \<not> clean dirty_status
   \<and> fst (switch_branch_execute env_dirty [] ''dev'' False) = Inr CANCELLED
   \<and> commands (snd (switch_branch_execute env_dirty [] ''dev'' False)) = [[''status'']]"
proof -
  have h1: "get_repository_path env_dirty = Inr ''/proj''" by code_simp
  have h2: "cli_status env_dirty [] ''/proj'' = (Inr dirty_status, [Exec ''/proj'' [''status''] 30])"
    by code_simp
  have h: "\<not> clean dirty_status" by (simp add: dirty_status_def)
  then have h3: "\<not> clean dirty_status \<or> modified dirty_status \<noteq> [] \<or> deleted dirty_status \<noteq> []
                 \<or> untracked dirty_status \<noteq> []"
    by (rule disjI1)
  have n: "(''dev'' = []) = False" by simp
  have e: "commands [] = []" by (simp add: commands_def)
  from switch_branch_refuses_uncommitted [OF h1 h2 h3, of "''dev''"]
  have "fst (switch_branch_execute env_dirty [] ''dev'' False) = Inr CANCELLED
        \<and> commands (snd (switch_branch_execute env_dirty [] ''dev'' False)) = [[''status'']]"
    by (simp only: n if_False e append_Nil)
  with h1 h2 h show ?thesis by (intro conjI) (elim conjE, assumption)+
qed

text \<open>
  Claim C10.  When \<open>status\<close> itself fails and \<open>skip_change_check\<close> is false, the operator
  continues exactly as it does after the gate, from the call of \<open>checkout\<close> on, whatever
  the working tree holds; for a branch name that is not blank the commands it hands to
  the executable are \<open>status\<close> and then \<open>checkout\<close> of the trimmed name.
\<close>

theorem switch_branch_status_failure:
  assumes "branch_name \<noteq> []"
    and "get_repository_path e = Inr repo_path"
    and "cli_status e tr repo_path = (Inl err, tr1)"
  shows "switch_branch_execute e tr branch_name False =
           switch_branch_checkout e tr1 repo_path branch_name
         \<and> (str_strip branch_name \<noteq> [] \<longrightarrow>
              commands (snd (switch_branch_execute e tr branch_name False)) =
                commands tr @ [[''status''], [''checkout'', str_strip branch_name]])"
proof -
  from assms have eq: "switch_branch_execute e tr branch_name False =
           switch_branch_checkout e tr1 repo_path branch_name"
    by (simp add: switch_branch_execute_def)
  from assms(3) have t: "tr1 = tr @ [Exec repo_path [''status''] 30]" by (rule cli_status_trace)
  have c: "commands tr1 = commands tr @ [[''status'']]" unfolding t by (simp add: commands_def)
  show ?thesis
    by (simp add: eq switch_branch_checkout_commands cli_checkout_commands c)
qed

theorem switch_branch_status_failure_witness:
  "''dev'' \<noteq> []
   \<and> get_repository_path env_status_fails = Inr ''/proj''
   \<and> cli_status env_status_fails [] ''/proj'' =
       (Inl ''database is locked'', [Exec ''/proj'' [''status''] 30])
   \<and> str_strip ''dev'' \<noteq> []
   \<and> commands (snd (switch_branch_execute env_status_fails [] ''dev'' False)) =
       [[''status''], [''checkout'', ''dev'']]
   \<and> fst (switch_branch_execute env_status_fails [] ''dev'' False) = Inr FINISHED"
proof -
  have h1: "''dev'' \<noteq> []" by simp
  have h2: "get_repository_path env_status_fails = Inr ''/proj''" by code_simp
  have h3: "cli_status env_status_fails [] ''/proj'' =
              (Inl ''database is locked'', [Exec ''/proj'' [''status''] 30])"
    by code_simp
  have s: "str_strip ''dev'' = ''dev''" by code_simp
  have h4: "str_strip ''dev'' \<noteq> []" by (simp add: s)
  have e: "commands [] = []" by (simp add: commands_def)
  have f: "fst (switch_branch_checkout env_status_fails [Exec ''/proj'' [''status''] 30] ''/proj'' ''dev'')
           = Inr FINISHED"
    by code_simp
  note t = switch_branch_status_failure [OF h1 h2 h3]
  from t have t1: "switch_branch_execute env_status_fails [] ''dev'' False =
      switch_branch_checkout env_status_fails [Exec ''/proj'' [''status''] 30] ''/proj'' ''dev''"
    by (rule conjunct1)
  from t have "str_strip ''dev'' \<noteq> [] \<longrightarrow>
      commands (snd (switch_branch_execute env_status_fails [] ''dev'' False)) =
        commands [] @ [[''status''], [''checkout'', str_strip ''dev'']]"
    by (rule conjunct2)
  from mp [OF this h4]
  have c: "commands (snd (switch_branch_execute env_status_fails [] ''dev'' False)) =
        [[''status''], [''checkout'', ''dev'']]"
    by (simp only: e append_Nil s)
  have r: "fst (switch_branch_execute env_status_fails [] ''dev'' False) = Inr FINISHED"
    by (simp only: t1 f)
  from h1 h2 h3 h4 c r show ?thesis by (intro conjI)
qed

text \<open>The guard of the delete-branch operator compares the names of the listing with the
  property as it stands: when the listing succeeds and has an entry with exactly that name
  that is current, the operator reports the error and returns \<open>CANCELLED\<close>, and the only
  command it hands to the executable is the listing.\<close>

lemma delete_branch_guard:
  assumes "get_repository_path e = Inr repo_path"
    and "cli_branch e tr (PathObj repo_path) ''list'' None = (Inr (Some branches), tr1)"
    and "\<exists>b\<in>set branches. br_name b = branch_name \<and> is_current b"
  shows "delete_branch_execute e tr branch_name =
           (Inr CANCELLED,
            tr1 @ [Report ERROR (''Cannot delete current branch '' @ sq @ branch_name @ sq
                                 @ ''. Switch to another branch first.'')])
         \<and> commands (snd (delete_branch_execute e tr branch_name)) = commands tr @ [[''branch'']]"
proof -
  from assms(2) have t: "tr1 = tr @ [Exec repo_path [''branch''] 30]"
    and ne: "\<forall>b\<in>set branches. br_name b \<noteq> []"
    using cli_branch_list by blast+
  from assms(3) ne have n: "branch_name \<noteq> []" by auto
  from assms(3) have ex: "list_ex (\<lambda>branch_data. br_name branch_data = branch_name
                                     \<and> is_current branch_data) branches"
    by (simp add: list_ex_iff)
  from n assms(1,2) ex have eq: "delete_branch_execute e tr branch_name =
           (Inr CANCELLED,
            tr1 @ [Report ERROR (''Cannot delete current branch '' @ sq @ branch_name @ sq
                                 @ ''. Switch to another branch first.'')])"
    by (simp add: delete_branch_execute_def report_def)
  have r: "\<And>m. commands (tr1 @ [Report ERROR m]) = commands tr @ [[''branch'']]"
    unfolding t by (simp add: commands_def)
  show ?thesis unfolding eq by (simp add: r)
qed

text \<open>
  Claim C8.  The listing of \<open>env_branches\<close> marks \<open>dev\<close> as the current branch.  With \<open>dev\<close>
  as the name the operator refuses.  With the same name after a space the guard, which
  compares the property as it stands, finds no entry; \<open>ForesterCLI.branch\<close> then trims the
  name, \<open>branch -d dev\<close> is handed to the executable for the current branch, and the
  operator returns \<open>FINISHED\<close>.
\<close>

theorem delete_branch_reaches_current:
  "cli_branch env_branches [] (PathObj ''/proj'') ''list'' None =
     (Inr (Some [\<lparr>br_name = ''main'', is_current = False\<rparr>, \<lparr>br_name = ''dev'', is_current = True\<rparr>]),
      [Exec ''/proj'' [''branch''] 30])
   \<and> fst (delete_branch_execute env_branches [] ''dev'') = Inr CANCELLED
   \<and> commands (snd (delete_branch_execute env_branches [] ''dev'')) = [[''branch'']]
   \<and> fst (delete_branch_execute env_branches [] '' dev'') = Inr FINISHED
   \<and> commands (snd (delete_branch_execute env_branches [] '' dev'')) =
       [[''branch''], [''branch'', ''-d'', ''dev'']]"
  by code_simp

subsection \<open>gc\<close>

lemma digit_char_isdigit: "d < 10 \<Longrightarrow> isdigit (digit_char d)"
proof -
  assume "d < 10"
  then have "d = 0 \<or> d = 1 \<or> d = 2 \<or> d = 3 \<or> d = 4 \<or> d = 5 \<or> d = 6 \<or> d = 7 \<or> d = 8 \<or> d = 9"
    by arith
  then show ?thesis by (elim disjE; (hypsubst, code_simp))
qed

lemma str_nat_digits: "str_nat n \<noteq> [] \<and> list_all isdigit (str_nat n)"
proof (induction n rule: str_nat.induct)
  case (1 n)
  show ?case
  proof (cases "n < 10")
    case True
    then show ?thesis by (simp add: str_nat.simps [of n] digit_char_isdigit)
  next
    case False
    have "n mod 10 < 10" by simp
    then have "isdigit (digit_char (n mod 10))" by (rule digit_char_isdigit)
    with False 1 show ?thesis by (simp add: str_nat.simps [of n])
  qed
qed

lemma str_nat_hd: "\<exists>c cs. str_nat n = c # cs \<and> isdigit c"
  using str_nat_digits [of n] by (cases "str_nat n") simp_all

lemma str_int_not_flag: "str_int n \<noteq> CHR ''-'' # CHR ''-'' # rest"
proof -
  have nd: "\<not> isdigit CHR ''-''" by (simp add: isdigit_def)
  show ?thesis
  proof (cases "n < 0")
    case True
    from str_nat_hd [of "nat (- n)"] nd True show ?thesis by (auto simp add: str_int_def)
  next
    case False
    from str_nat_hd [of "nat n"] nd False show ?thesis by (auto simp add: str_int_def)
  qed
qed

lemma cli_gc_trace:
  "snd (cli_gc e tr repo_path dry_run n) =
     tr @ [Exec repo_path (''gc'' # (if dry_run then [''--dry-run''] else [])
                           @ (if n \<noteq> 90 then [''--reflog-expire'', str_int n] else [])) 300]"
  by (simp add: cli_gc_def execute_command_def Let_def split: exec_outcome.splits)

lemma commands_exec: "commands (tr @ [Exec cwd command timeout]) = commands tr @ [command]"
  by (simp add: commands_def)

text \<open>
  Claim C3.  The garbage-collect operator does the same for both values of its \<open>dry_run\<close>
  property, and the one command it hands to the executable, when the file is inside a
  repository, is \<open>gc\<close> without any flag.  \<open>ForesterCLI.gc\<close> hands over one command, \<open>gc\<close>
  followed by \<open>--dry-run\<close> when \<open>dry_run\<close> is true and then by \<open>--reflog-expire\<close> and the
  number of days when that number is not 90; so \<open>--dry-run\<close> is among its arguments
  exactly when \<open>dry_run\<close> is true and \<open>--reflog-expire\<close> exactly when the number is not 90.
\<close>

theorem gc_flags:
  "garbage_collect_execute e tr dry_run_prop = garbage_collect_execute e tr (\<not> dry_run_prop)
   \<and> commands (snd (garbage_collect_execute e tr dry_run_prop)) =
       commands tr @ (case get_repository_path e of Inl m \<Rightarrow> [] | Inr p \<Rightarrow> [[''gc'']])
   \<and> commands (snd (cli_gc e tr repo_path dry_run n)) =
       commands tr @ [''gc'' # (if dry_run then [''--dry-run''] else [])
                      @ (if n = 90 then [] else [''--reflog-expire'', str_int n])]
   \<and> (''--dry-run'' \<in> set (last (commands (snd (cli_gc e tr repo_path dry_run n))))) = dry_run
   \<and> (''--reflog-expire'' \<in> set (last (commands (snd (cli_gc e tr repo_path dry_run n)))))
       = (n \<noteq> 90)"
proof -
  have a: "garbage_collect_execute e tr dry_run_prop = garbage_collect_execute e tr (\<not> dry_run_prop)"
    by (simp add: garbage_collect_execute_def)
  have g: "commands (snd (cli_gc e tr p False 90)) = commands tr @ [[''gc'']]" for p
    by (simp add: cli_gc_trace commands_exec)
  have b: "commands (snd (garbage_collect_execute e tr dry_run_prop)) =
       commands tr @ (case get_repository_path e of Inl m \<Rightarrow> [] | Inr p \<Rightarrow> [[''gc'']])"
  proof (cases "get_repository_path e")
    case (Inl m)
    then show ?thesis by (simp add: garbage_collect_execute_def commands_report)
  next
    case (Inr p)
    obtain r tr1 where c: "cli_gc e tr p False 90 = (r, tr1)" by (cases "cli_gc e tr p False 90")
    with g [of p] have t: "commands tr1 = commands tr @ [[''gc'']]" by simp
    have s: "commands (tr1 @ [SetGcLastRun]) = commands tr1" by (simp add: commands_def)
    from Inr c t s show ?thesis
      by (cases r) (simp_all add: garbage_collect_execute_def commands_report)
  qed
  have c: "commands (snd (cli_gc e tr repo_path dry_run n)) =
       commands tr @ [''gc'' # (if dry_run then [''--dry-run''] else [])
                      @ (if n = 90 then [] else [''--reflog-expire'', str_int n])]"
    by (simp add: cli_gc_trace commands_exec)
  have f1: "str_int n \<noteq> ''--dry-run''" by (rule str_int_not_flag)
  have f2: "str_int n \<noteq> ''--reflog-expire''" by (rule str_int_not_flag)
  have d: "(''--dry-run'' \<in> set (last (commands (snd (cli_gc e tr repo_path dry_run n))))) = dry_run"
    unfolding c using f1 by auto
  have r: "(''--reflog-expire'' \<in> set (last (commands (snd (cli_gc e tr repo_path dry_run n)))))
       = (n \<noteq> 90)"
    unfolding c using f2 by auto
  from a b c d r show ?thesis by (intro conjI)
qed

theorem gc_flags_witness:
  "garbage_collect_execute env_quiet [] True = garbage_collect_execute env_quiet [] False
   \<and> commands (snd (garbage_collect_execute env_quiet [] True)) = [[''gc'']]
   \<and> commands (snd (cli_gc env_quiet [] ''/proj'' True 30)) =
       [[''gc'', ''--dry-run'', ''--reflog-expire'', ''30'']]
   \<and> commands (snd (cli_gc env_quiet [] ''/proj'' False 90)) = [[''gc'']]"
proof -
  have p: "get_repository_path env_quiet = Inr ''/proj''" by code_simp
  have s: "str_int 30 = ''30''" by code_simp
  have e: "commands [] = []" by (simp add: commands_def)
  note t = gc_flags [of env_quiet "[]" True "''/proj''" True 30]
  from t have a: "garbage_collect_execute env_quiet [] True = garbage_collect_execute env_quiet [] (\<not> True)"
    by (rule conjunct1)
  from t have "commands (snd (garbage_collect_execute env_quiet [] True)) =
       commands [] @ (case get_repository_path env_quiet of Inl m \<Rightarrow> [] | Inr p \<Rightarrow> [[''gc'']])"
    by (elim conjE)
  then have b: "commands (snd (garbage_collect_execute env_quiet [] True)) = [[''gc'']]"
    by (simp only: p e append_Nil sum.case)
  from t have "commands (snd (cli_gc env_quiet [] ''/proj'' True 30)) =
       commands [] @ [''gc'' # (if True then [''--dry-run''] else [])
                      @ (if (30::int) = 90 then [] else [''--reflog-expire'', str_int 30])]"
    by (elim conjE)
  then have c: "commands (snd (cli_gc env_quiet [] ''/proj'' True 30)) =
       [[''gc'', ''--dry-run'', ''--reflog-expire'', ''30'']]"
    by (simp add: e s)
  from gc_flags [of env_quiet "[]" False "''/proj''" False 90]
  have "commands (snd (cli_gc env_quiet [] ''/proj'' False 90)) =
       commands [] @ [''gc'' # (if False then [''--dry-run''] else [])
                      @ (if (90::int) = 90 then [] else [''--reflog-expire'', str_int 90])]"
    by (elim conjE)
  then have d: "commands (snd (cli_gc env_quiet [] ''/proj'' False 90)) = [[''gc'']]"
    by (simp add: e)
  from a have a': "garbage_collect_execute env_quiet [] True = garbage_collect_execute env_quiet [] False"
    by simp
  from a' b c d show ?thesis by (intro conjI)
qed

subsection \<open>The delete-commit operator\<close>

















subsection \<open>The stash-and-checkout operator\<close>

lemma stash_message_nonempty: "stash_message stamp \<noteq> []"
  by (simp add: stash_message_def)

lemma cli_stash_save_trace:
  "cli_stash e tr repo_path ''save'' (Some (stash_message stamp)) = (r, tr1) \<Longrightarrow>
   tr1 = tr @ [Exec repo_path [''stash'', ''save'', stash_message stamp] 30]"
  using stash_message_nonempty [of stamp]
  by (auto simp add: cli_stash_def execute_command_def Let_def split: exec_outcome.splits if_splits)

lemma commands_ops_event: "commands (t @ [Ops c]) = commands t"
  by (simp add: commands_def)

lemma proceed_commands:
  "commands (snd (stash_and_checkout_proceed e tr target_type target_value stash_hash)) = commands tr"
  unfolding stash_and_checkout_proceed_def Let_def call_operator_def
  by (simp only: prod.case snd_conv commands_report commands_ops_event simp_thms
        split: sum.split option.split ops_outcome.split if_split)

lemma randint_range: "1000 \<le> randint e tr 1000 9999 \<and> randint e tr 1000 9999 \<le> 9999"
proof -
  have "random_source e tr mod 9000 < 9000" by simp
  then show ?thesis by (simp add: randint_def)
qed

lemma str_nat_four:
  assumes "1000 \<le> n" and "n \<le> 9999"
  shows "length (str_nat n) = 4"
proof -
  define a where "a = n div 10"
  define b where "b = a div 10"
  define c where "c = b div 10"
  from assms have n: "\<not> n < 10" and a: "\<not> a < 10" and b: "\<not> b < 10" and c: "c < 10"
    unfolding a_def b_def c_def by arith+
  have "str_nat c = [digit_char c]" using c by (simp add: str_nat.simps [of c])
  then have "length (str_nat b) = 2" using b by (simp add: str_nat.simps [of b] c_def)
  then have "length (str_nat a) = 3" using a by (simp add: str_nat.simps [of a] b_def)
  then show ?thesis using n by (simp add: str_nat.simps [of n] a_def)
qed

lemma random_suffix_digits:
  "length (str_int (int (randint e tr 1000 9999))) = 4
   \<and> list_all isdigit (str_int (int (randint e tr 1000 9999)))"
  using randint_range [of e tr] str_nat_digits [of "randint e tr 1000 9999"]
  by (simp add: str_int_def str_nat_four)

text \<open>
  Claim C5.  The file is inside a repository and the first \<open>stash save\<close> fails with the
  message \<open>error_msg\<close>.  When the message contains \<open>UNIQUE constraint\<close> or \<open>stashes.hash\<close>,
  the operator hands exactly one more command to the executable, a \<open>stash save\<close> whose
  message carries the time read anew, a dash and a random number of four digits.  When
  it contains neither, the first \<open>stash save\<close> remains the only command, and the operator
  reports the failure and returns \<open>CANCELLED\<close>.
\<close>

theorem stash_collision_retry:
  assumes "get_repository_path e = Inr repo_path"
    and "cli_stash e tr repo_path ''save'' (Some (stash_message (now_strftime e tr)))
         = (Inl error_msg, tr1)"
  shows "(str_contains ''UNIQUE constraint'' error_msg \<or> str_contains ''stashes.hash'' error_msg \<longrightarrow>
            commands (snd (stash_and_checkout_execute e tr target_type target_value)) =
              commands tr @
              [[''stash'', ''save'', stash_message (now_strftime e tr)],
               [''stash'', ''save'',
                stash_message (now_strftime e tr1 @ ''-''
                               @ str_int (int (randint e tr1 1000 9999)))]]
            \<and> length (str_int (int (randint e tr1 1000 9999))) = 4
            \<and> list_all isdigit (str_int (int (randint e tr1 1000 9999))))
         \<and> (\<not> str_contains ''UNIQUE constraint'' error_msg
            \<and> \<not> str_contains ''stashes.hash'' error_msg \<longrightarrow>
            stash_and_checkout_execute e tr target_type target_value =
              (Inr CANCELLED, tr1 @ [Report ERROR (''Failed to stash changes: '' @ error_msg)])
            \<and> commands (snd (stash_and_checkout_execute e tr target_type target_value)) =
                commands tr @ [[''stash'', ''save'', stash_message (now_strftime e tr)]])"
proof -
  let ?m1 = "stash_message (now_strftime e tr)"
  let ?m2 = "stash_message (now_strftime e tr1 @ ''-'' @ str_int (int (randint e tr1 1000 9999)))"
  from assms(2) have t1: "tr1 = tr @ [Exec repo_path [''stash'', ''save'', ?m1] 30]"
    by (rule cli_stash_save_trace)
  have c1: "commands tr1 = commands tr @ [[''stash'', ''save'', ?m1]]"
    unfolding t1 by (simp add: commands_def)
  have retry: "commands (snd (stash_and_checkout_execute e tr target_type target_value)) =
                 commands tr @ [[''stash'', ''save'', ?m1], [''stash'', ''save'', ?m2]]"
    if col: "str_contains ''UNIQUE constraint'' error_msg \<or> str_contains ''stashes.hash'' error_msg"
  proof -
    obtain r2 tr2 where s2: "cli_stash e tr1 repo_path ''save'' (Some ?m2) = (r2, tr2)"
      by (cases "cli_stash e tr1 repo_path ''save'' (Some ?m2)")
    then have t2: "tr2 = tr1 @ [Exec repo_path [''stash'', ''save'', ?m2] 30]"
      by (rule cli_stash_save_trace)
    have c2: "commands tr2 = commands tr @ [[''stash'', ''save'', ?m1], [''stash'', ''save'', ?m2]]"
      unfolding t2 by (simp add: commands_exec c1)
    show ?thesis
    proof (cases r2)
      case (Inl error_msg')
      with assms col s2 c2 show ?thesis
        by (simp add: stash_and_checkout_execute_def Let_def commands_report)
    next
      case (Inr stash_hash)
      with assms col s2 c2 show ?thesis
        by (simp add: stash_and_checkout_execute_def Let_def proceed_commands)
    qed
  qed
  have stop: "stash_and_checkout_execute e tr target_type target_value =
                (Inr CANCELLED, tr1 @ [Report ERROR (''Failed to stash changes: '' @ error_msg)])"
    if "\<not> str_contains ''UNIQUE constraint'' error_msg" and "\<not> str_contains ''stashes.hash'' error_msg"
    using assms that by (simp add: stash_and_checkout_execute_def Let_def report_def)
  have stop_commands: "commands (tr1 @ [Report ERROR m]) = commands tr @ [[''stash'', ''save'', ?m1]]"
    for m
    using c1 commands_report [of tr1 ERROR m] by (simp add: report_def)
  show ?thesis
    using retry stop stop_commands random_suffix_digits [of e tr1] by simp
qed

theorem stash_collision_retry_witness:
  "cli_stash env_collision [] ''/proj'' ''save'' (Some (stash_message (now_strftime env_collision [])))
     = (Inl ''UNIQUE constraint failed: stashes.hash'',
        [Exec ''/proj'' [''stash'', ''save'',
                         ''Auto-stash before checkout (2024-05-01 12:00:00.000417)''] 30])
   \<and> commands (snd (stash_and_checkout_execute env_collision [] ''branch'' ''dev'')) =
       [[''stash'', ''save'', ''Auto-stash before checkout (2024-05-01 12:00:00.000417)''],
        [''stash'', ''save'', ''Auto-stash before checkout (2024-05-01 12:00:00.734512-1007)'']]
   \<and> fst (stash_and_checkout_execute env_collision [] ''branch'' ''dev'') = Inr FINISHED
   \<and> cli_stash env_disk_full [] ''/proj'' ''save'' (Some (stash_message (now_strftime env_disk_full [])))
     = (Inl ''disk full'',
        [Exec ''/proj'' [''stash'', ''save'',
                         ''Auto-stash before checkout (2024-05-01 12:00:00.000417)''] 30])
   \<and> commands (snd (stash_and_checkout_execute env_disk_full [] ''branch'' ''dev'')) =
       [[''stash'', ''save'', ''Auto-stash before checkout (2024-05-01 12:00:00.000417)'']]
   \<and> fst (stash_and_checkout_execute env_disk_full [] ''branch'' ''dev'') = Inr CANCELLED"
proof -
  let ?tr1 = "[Exec ''/proj'' [''stash'', ''save'',
                 ''Auto-stash before checkout (2024-05-01 12:00:00.000417)''] 30]"
  have a1: "get_repository_path env_collision = Inr ''/proj''" by code_simp
  have a2: "cli_stash env_collision [] ''/proj'' ''save''
              (Some (stash_message (now_strftime env_collision [])))
            = (Inl ''UNIQUE constraint failed: stashes.hash'', ?tr1)"
    by code_simp
  have a3: "str_contains ''UNIQUE constraint'' ''UNIQUE constraint failed: stashes.hash''
            \<or> str_contains ''stashes.hash'' ''UNIQUE constraint failed: stashes.hash''"
    by code_simp
  have ev: "commands [] @
              [[''stash'', ''save'', stash_message (now_strftime env_collision [])],
               [''stash'', ''save'',
                stash_message (now_strftime env_collision ?tr1 @ ''-''
                               @ str_int (int (randint env_collision ?tr1 1000 9999)))]]
            = [[''stash'', ''save'', ''Auto-stash before checkout (2024-05-01 12:00:00.000417)''],
               [''stash'', ''save'', ''Auto-stash before checkout (2024-05-01 12:00:00.734512-1007)'']]"
    by code_simp
  note ta = stash_collision_retry [OF a1 a2, of "''branch''" "''dev''"]
  from ta have "str_contains ''UNIQUE constraint'' ''UNIQUE constraint failed: stashes.hash''
                \<or> str_contains ''stashes.hash'' ''UNIQUE constraint failed: stashes.hash'' \<longrightarrow>
      commands (snd (stash_and_checkout_execute env_collision [] ''branch'' ''dev'')) =
        commands [] @
        [[''stash'', ''save'', stash_message (now_strftime env_collision [])],
         [''stash'', ''save'',
          stash_message (now_strftime env_collision ?tr1 @ ''-''
                         @ str_int (int (randint env_collision ?tr1 1000 9999)))]]
      \<and> length (str_int (int (randint env_collision ?tr1 1000 9999))) = 4
      \<and> list_all isdigit (str_int (int (randint env_collision ?tr1 1000 9999)))"
    by (rule conjunct1)
  from mp [OF this a3]
  have "commands (snd (stash_and_checkout_execute env_collision [] ''branch'' ''dev'')) =
        commands [] @
        [[''stash'', ''save'', stash_message (now_strftime env_collision [])],
         [''stash'', ''save'',
          stash_message (now_strftime env_collision ?tr1 @ ''-''
                         @ str_int (int (randint env_collision ?tr1 1000 9999)))]]"
    by (rule conjunct1)
  then have ca: "commands (snd (stash_and_checkout_execute env_collision [] ''branch'' ''dev'')) =
       [[''stash'', ''save'', ''Auto-stash before checkout (2024-05-01 12:00:00.000417)''],
        [''stash'', ''save'', ''Auto-stash before checkout (2024-05-01 12:00:00.734512-1007)'']]"
    by (simp only: ev)
  have ra: "fst (stash_and_checkout_execute env_collision [] ''branch'' ''dev'') = Inr FINISHED"
    by code_simp
  have b1: "get_repository_path env_disk_full = Inr ''/proj''" by code_simp
  have b2: "cli_stash env_disk_full [] ''/proj'' ''save''
              (Some (stash_message (now_strftime env_disk_full [])))
            = (Inl ''disk full'', ?tr1)"
    by code_simp
  have b3: "\<not> str_contains ''UNIQUE constraint'' ''disk full''
            \<and> \<not> str_contains ''stashes.hash'' ''disk full''"
    by code_simp
  have ev': "commands [] @ [[''stash'', ''save'', stash_message (now_strftime env_disk_full [])]]
             = [[''stash'', ''save'', ''Auto-stash before checkout (2024-05-01 12:00:00.000417)'']]"
    by code_simp
  note tb = stash_collision_retry [OF b1 b2, of "''branch''" "''dev''"]
  from tb have "\<not> str_contains ''UNIQUE constraint'' ''disk full''
                \<and> \<not> str_contains ''stashes.hash'' ''disk full'' \<longrightarrow>
      stash_and_checkout_execute env_disk_full [] ''branch'' ''dev'' =
        (Inr CANCELLED, ?tr1 @ [Report ERROR (''Failed to stash changes: '' @ ''disk full'')])
      \<and> commands (snd (stash_and_checkout_execute env_disk_full [] ''branch'' ''dev'')) =
          commands [] @ [[''stash'', ''save'', stash_message (now_strftime env_disk_full [])]]"
    by (rule conjunct2)
  from mp [OF this b3]
  have rb0: "stash_and_checkout_execute env_disk_full [] ''branch'' ''dev'' =
        (Inr CANCELLED, ?tr1 @ [Report ERROR (''Failed to stash changes: '' @ ''disk full'')])"
    and cb0: "commands (snd (stash_and_checkout_execute env_disk_full [] ''branch'' ''dev'')) =
          commands [] @ [[''stash'', ''save'', stash_message (now_strftime env_disk_full [])]]"
    by (rule conjunct1, rule conjunct2)
  from rb0 have rb: "fst (stash_and_checkout_execute env_disk_full [] ''branch'' ''dev'') = Inr CANCELLED"
    by (simp only: fst_conv)
  from cb0 have cb: "commands (snd (stash_and_checkout_execute env_disk_full [] ''branch'' ''dev'')) =
       [[''stash'', ''save'', ''Auto-stash before checkout (2024-05-01 12:00:00.000417)'']]"
    by (simp only: ev')
  from a2 ca ra b2 cb rb show ?thesis by (intro conjI)
qed

end
